theory Spec2Isabelle
  imports Main "HOL-Library.Multiset"
begin

section \<open>Python values, keyword arguments and exceptions\<close>

text \<open>
  The functions of \<^verbatim>\<open>mesonbuild/dependencies.py\<close> take their options in a keyword
  dictionary whose values are dynamically typed. The values that the modelled code
  inspects are \<^verbatim>\<open>None\<close>, booleans, integers, strings and lists.
\<close>

datatype pyval = PNone | PBool bool | PInt int | PStr string | PList "pyval list"

type_synonym kwargs = "string \<rightharpoonup> pyval"

text \<open>Python truthiness, as used by \<^verbatim>\<open>if x:\<close> and \<^verbatim>\<open>not x\<close>.\<close>

fun truthy :: "pyval \<Rightarrow> bool" where
  "truthy PNone = False"
| "truthy (PBool b) = b"
| "truthy (PInt i) = (i \<noteq> 0)"
| "truthy (PStr s) = (s \<noteq> [])"
| "truthy (PList xs) = (xs \<noteq> [])"

text \<open>
  An exception is its class and its message. The message is kept as the pieces that the
  source formats together (literal text, \<^verbatim>\<open>str\<close> or \<^verbatim>\<open>repr\<close> of a value,
  \<^verbatim>\<open>mlog.format_list\<close> of a list, \<^verbatim>\<open>str\<close> of another exception), so that
  no rendering rule of Python has to be assumed. \<^verbatim>\<open>DependencyException\<close> is a subclass
  of \<^verbatim>\<open>MesonException\<close>; \<^verbatim>\<open>OSError\<close> stands for \<^verbatim>\<open>FileNotFoundError\<close> and
  \<^verbatim>\<open>PermissionError\<close> and the other failures of a system call.
\<close>

datatype exc_class = MesonException | DependencyException | TypeError | IndexError | OSError

datatype exc = Exc exc_class "piece list"
  and piece = Lit string | Str pyval | Repr pyval | FormatList "string list" | StrExc "exc option"

fun exc_class_of :: "exc \<Rightarrow> exc_class" where
  "exc_class_of (Exc c m) = c"

fun exc_text :: "exc \<Rightarrow> piece list" where
  "exc_text (Exc c m) = m"

definition is_DependencyException :: "exc \<Rightarrow> bool" where
  "is_DependencyException e = (exc_class_of e = DependencyException)"

definition is_MesonException :: "exc \<Rightarrow> bool" where
  "is_MesonException e = (exc_class_of e = MesonException \<or> exc_class_of e = DependencyException)"

section \<open>Strings and paths\<close>

text \<open>
  Characters are taken as code points below 256. \<^verbatim>\<open>str.strip()\<close> and
  \<^verbatim>\<open>str.split()\<close> treat the following code points as white space.
\<close>

definition is_space :: "char \<Rightarrow> bool" where
  "is_space c = ((of_char c :: nat) \<in> {9, 10, 11, 12, 13, 28, 29, 30, 31, 32, 133, 160})"

definition strip :: "string \<Rightarrow> string" where
  "strip s = rev (dropWhile is_space (rev (dropWhile is_space s)))"

text \<open>\<^verbatim>\<open>s.split(c)\<close> for a separator of one character: never the empty list.\<close>

fun split_on :: "char \<Rightarrow> string \<Rightarrow> string list" where
  "split_on c [] = [[]]"
| "split_on c (x # xs) =
     (if x = c then [] # split_on c xs
      else (case split_on c xs of [] \<Rightarrow> [[x]] | w # ws \<Rightarrow> (x # w) # ws))"

text \<open>\<^verbatim>\<open>s.split()\<close>: the maximal runs of characters that are not white space.\<close>

fun split_ws :: "string \<Rightarrow> string list" where
  "split_ws [] = []"
| "split_ws (x # xs) =
     (if is_space x then split_ws xs
      else (case xs of
              [] \<Rightarrow> [[x]]
            | y # ys \<Rightarrow>
                (if is_space y then [x] # split_ws xs
                 else (case split_ws xs of [] \<Rightarrow> [[x]] | w # ws \<Rightarrow> (x # w) # ws))))"

definition endswith :: "string \<Rightarrow> string \<Rightarrow> bool" where
  "endswith s suffix = (length suffix \<le> length s \<and> drop (length s - length suffix) s = suffix)"

text \<open>\<^verbatim>\<open>str.lower()\<close> on the ASCII letters.\<close>

definition lower_char :: "char \<Rightarrow> char" where
  "lower_char c =
     (case map_of (zip ''ABCDEFGHIJKLMNOPQRSTUVWXYZ'' ''abcdefghijklmnopqrstuvwxyz'') c of
        None \<Rightarrow> c
      | Some l \<Rightarrow> l)"

definition lower :: "string \<Rightarrow> string" where
  "lower s = map lower_char s"

text \<open>\<^verbatim>\<open>s[1:-1]\<close>.\<close>

definition slice_1_m1 :: "string \<Rightarrow> string" where
  "slice_1_m1 s = butlast (drop 1 s)"

text \<open>
  The host is a POSIX system: \<^verbatim>\<open>os.path\<close> is \<^verbatim>\<open>posixpath\<close> and
  \<^verbatim>\<open>mesonlib.is_windows()\<close> is false. \<^verbatim>\<open>rfind_slash p\<close> is
  \<^verbatim>\<open>p.rfind('/') + 1\<close>.
\<close>

definition rfind_slash :: "string \<Rightarrow> nat" where
  "rfind_slash p = length p - length (takeWhile (\<lambda>c. c \<noteq> CHR ''/'') (rev p))"

definition basename :: "string \<Rightarrow> string" where
  "basename p = drop (rfind_slash p) p"

definition rstrip_slash :: "string \<Rightarrow> string" where
  "rstrip_slash s = rev (dropWhile (\<lambda>c. c = CHR ''/'') (rev s))"

definition dirname :: "string \<Rightarrow> string" where
  "dirname p =
     (let head = take (rfind_slash p) p
      in if head \<noteq> [] \<and> head \<noteq> replicate (length head) (CHR ''/'') then rstrip_slash head
         else head)"

definition isabs :: "string \<Rightarrow> bool" where
  "isabs p = (case p of [] \<Rightarrow> False | c # cs \<Rightarrow> c = CHR ''/'')"

definition path_join :: "string \<Rightarrow> string \<Rightarrow> string" where
  "path_join a b =
     (if isabs b then b
      else if a = [] \<or> last a = CHR ''/'' then a @ b
      else a @ ''/'' @ b)"

definition path_join3 :: "string \<Rightarrow> string \<Rightarrow> string \<Rightarrow> string" where
  "path_join3 a b c = path_join (path_join a b) c"

section \<open>The base class \<^verbatim>\<open>Dependency\<close>\<close>

record dependency_base =
  name :: string
  is_found :: bool
  type_name :: string
  methods :: "string list"

text \<open>
  \<^verbatim>\<open>Dependency.__init__(self, type_name, kwargs)\<close>. The first argument of the model is
  what \<^verbatim>\<open>self.get_methods()\<close> returns for the class being constructed. A method that
  is not a string equals no string, so it is neither \<^verbatim>\<open>"auto"\<close> nor in the list.
\<close>

definition unsupported_method :: "pyval \<Rightarrow> string list \<Rightarrow> exc" where
  "unsupported_method method get_methods =
     Exc MesonException
       [Lit ''Unsupported detection method: '', Str method,
        Lit '', allowed methods are '', FormatList (''auto'' # get_methods)]"

definition Dependency_init :: "string list \<Rightarrow> string \<Rightarrow> kwargs \<Rightarrow> exc + dependency_base" where
  "Dependency_init get_methods tname kwargs =
     (let method = (case kwargs ''method'' of None \<Rightarrow> PStr ''auto'' | Some m \<Rightarrow> m);
          self = \<lparr>name = ''null'', is_found = False, type_name = tname, methods = []\<rparr>
      in case method of
           PStr m \<Rightarrow>
             (if m = ''auto'' then Inr (self\<lparr>methods := get_methods\<rparr>)
              else if m \<in> set get_methods then Inr (self\<lparr>methods := [m]\<rparr>)
              else Inl (unsupported_method method get_methods))
         | _ \<Rightarrow> Inl (unsupported_method method get_methods))"

text \<open>\<^verbatim>\<open>Dependency.get_methods\<close>, inherited by the classes that do not override it.\<close>

definition Dependency_get_methods :: "string list" where
  "Dependency_get_methods = [''auto'']"

text \<open>
  \<^verbatim>\<open>ThreadDependency.__init__(self, environment, kwargs)\<close> starts with
  \<^verbatim>\<open>super().__init__('threads')\<close>: the call gives \<^verbatim>\<open>Dependency.__init__\<close> no
  \<^verbatim>\<open>kwargs\<close> argument, a parameter without a default, and Python raises
  \<^verbatim>\<open>TypeError\<close> before the body of \<^verbatim>\<open>Dependency.__init__\<close> runs.
\<close>

definition missing_kwargs :: exc where
  "missing_kwargs =
     Exc TypeError [Lit ''__init__() missing 1 required positional argument: '', Repr (PStr ''kwargs'')]"

definition ThreadDependency_init :: "kwargs \<Rightarrow> exc + dependency_base" where
  "ThreadDependency_init kwargs = Inl missing_kwargs"

section \<open>The identity key of a request\<close>

text \<open>Iterating over a value (\<^verbatim>\<open>for module in modlist\<close>) and indexing it (\<^verbatim>\<open>f[0]\<close>).\<close>

definition py_iter :: "pyval \<Rightarrow> exc + pyval list" where
  "py_iter v =
     (case v of
        PList xs \<Rightarrow> Inr xs
      | PStr s \<Rightarrow> Inr (map (\<lambda>c. PStr [c]) s)
      | _ \<Rightarrow> Inl (Exc TypeError [Lit ''object is not iterable'']))"

definition py_index :: "pyval \<Rightarrow> nat \<Rightarrow> exc + pyval" where
  "py_index v i =
     (case v of
        PList xs \<Rightarrow>
          (if i < length xs then Inr (xs ! i) else Inl (Exc IndexError [Lit ''list index out of range'']))
      | PStr s \<Rightarrow>
          (if i < length s then Inr (PStr [s ! i])
           else Inl (Exc IndexError [Lit ''string index out of range'']))
      | _ \<Rightarrow> Inl (Exc TypeError [Lit ''object is not subscriptable'']))"

definition kw_get :: "kwargs \<Rightarrow> string \<Rightarrow> pyval \<Rightarrow> pyval" where
  "kw_get kw k d = (case kw k of None \<Rightarrow> d | Some v \<Rightarrow> v)"

text \<open>
  \<^verbatim>\<open>get_dep_identifier(name, kwargs)\<close>; the tuple is the list of its components.
\<close>

definition get_dep_identifier :: "string \<Rightarrow> kwargs \<Rightarrow> exc + pyval list" where
  "get_dep_identifier nm kw =
     (let modlist = kw_get kw ''modules'' (PList []);
          modlist = (case modlist of PStr s \<Rightarrow> PList [modlist] | _ \<Rightarrow> modlist)
      in case py_iter modlist of
           Inl e \<Rightarrow> Inl e
         | Inr mods \<Rightarrow>
             (let identifier = PStr nm # mods;
                  identifier = identifier @ [PStr ''main'', kw_get kw ''main'' (PBool False)];
                  identifier = identifier @ [PStr ''static'', kw_get kw ''static'' (PBool False)]
              in case kw ''fallback'' of
                   None \<Rightarrow> Inr identifier
                 | Some f \<Rightarrow>
                     (case py_index f 0 of
                        Inl e \<Rightarrow> Inl e
                      | Inr f0 \<Rightarrow>
                          (case py_index f 1 of
                             Inl e \<Rightarrow> Inl e
                           | Inr f1 \<Rightarrow> Inr (identifier @ [PStr ''fallback'', f0, f1])))))"

section \<open>\<^verbatim>\<open>ExternalProgram\<close> and its command list\<close>

text \<open>
  A command is a Python list whose elements are strings or \<^verbatim>\<open>None\<close>. Lists are
  mutable objects, so claims about copies are stated over a store of list objects: a
  reference is an index into the store, and allocating a list appends it.
\<close>

type_synonym command = "string option list"

type_synonym store = "command list"

record external_program =
  ep_name :: string
  ep_command :: nat

definition found_command :: "command \<Rightarrow> exc + bool" where
  "found_command cmd =
     (case cmd of
        [] \<Rightarrow> Inl (Exc IndexError [Lit ''list index out of range''])
      | c # cs \<Rightarrow> Inr (c \<noteq> None))"

definition path_of_command :: "command \<Rightarrow> exc + string option" where
  "path_of_command cmd =
     (case found_command cmd of
        Inl e \<Rightarrow> Inl e
      | Inr True \<Rightarrow> Inr (last cmd)
      | Inr False \<Rightarrow> Inr None)"

text \<open>\<^verbatim>\<open>found\<close>, \<^verbatim>\<open>get_path\<close> and \<^verbatim>\<open>get_command\<close> of an object in a store.\<close>

definition ExternalProgram_found :: "store \<Rightarrow> external_program \<Rightarrow> exc + bool" where
  "ExternalProgram_found st p = found_command (st ! ep_command p)"

definition ExternalProgram_get_path :: "store \<Rightarrow> external_program \<Rightarrow> exc + string option" where
  "ExternalProgram_get_path st p = path_of_command (st ! ep_command p)"

definition ExternalProgram_get_command :: "store \<Rightarrow> external_program \<Rightarrow> nat \<times> store" where
  "ExternalProgram_get_command st p = (length st, st @ [st ! ep_command p])"

section \<open>The outside world\<close>

text \<open>
  The location of the pkg-config binary: \<^verbatim>\<open>None\<close> (never searched), \<^verbatim>\<open>False\<close>
  (searched and not found) or a path.
\<close>

datatype pkgbin = PkgNone | PkgFalse | PkgBin string

fun pkgbin_truthy :: "pkgbin \<Rightarrow> bool" where
  "pkgbin_truthy PkgNone = False"
| "pkgbin_truthy PkgFalse = False"
| "pkgbin_truthy (PkgBin b) = (b \<noteq> [])"

text \<open>
  The class attribute \<^verbatim>\<open>PkgConfigDependency.class_pkgbin\<close> is the only state shared
  between requests. The two counters are instrumentation: \<open>searches\<close> counts the calls
  of \<^verbatim>\<open>check_pkgconfig\<close>, \<open>cache_writes\<close> the assignments to the class attribute.
\<close>

record pstate =
  class_pkgbin :: pkgbin
  searches :: nat
  cache_writes :: nat

text \<open>
  The part of \<^verbatim>\<open>environment\<close> that the modelled code reads:
  \<^verbatim>\<open>environment.is_cross_build()\<close> and the entry \<^verbatim>\<open>pkgconfig\<close> of
  \<^verbatim>\<open>environment.cross_info.config['binaries']\<close>, if there is one.
\<close>

record environment =
  is_cross_build :: bool
  cross_binaries_pkgconfig :: "string option"

text \<open>
  What the code asks of the operating system and of the modules it imports. A system
  call that fails is \<open>None\<close>: for \<^verbatim>\<open>Popen_safe\<close> this is \<^verbatim>\<open>FileNotFoundError\<close> or
  \<^verbatim>\<open>PermissionError\<close>, the two failures the source names; otherwise the result is the
  exit status and the standard output. \<^verbatim>\<open>version_compare_many\<close> belongs to
  \<^verbatim>\<open>mesonlib\<close> and is taken as given. \<open>other_kinds\<close> stands for the constructors of
  the registered classes that are not modelled below (all but \<^verbatim>\<open>ThreadDependency\<close>
  and \<^verbatim>\<open>ValgrindDependency\<close>): it gives the exception raised, or what \<^verbatim>\<open>found()\<close>
  returns on the new object, and the shared state afterwards. Calls of \<^verbatim>\<open>mlog\<close> are
  left out.
\<close>

record host =
  is_osx :: bool
  environ_PKG_CONFIG :: "string option"
  Popen_safe :: "string list \<Rightarrow> (int \<times> string) option"
  which :: "string \<Rightarrow> string option"
  path_exists :: "string \<Rightarrow> bool"
  open_lines :: "string \<Rightarrow> string list option"
  listdir :: "string \<Rightarrow> string list option"
  stat_is_dir :: "string \<Rightarrow> bool option"
  version_compare_many :: "string \<Rightarrow> pyval list \<Rightarrow> bool \<times> pyval list \<times> pyval list"
  other_kinds :: "string \<Rightarrow> environment \<Rightarrow> kwargs \<Rightarrow> pstate \<Rightarrow> (exc + bool) \<times> pstate"

section \<open>\<^verbatim>\<open>PkgConfigDependency\<close>\<close>

record pkgconfig_dep = dependency_base +
  is_libtool :: bool
  required :: pyval
  static :: bool
  pkgbin :: pkgbin
  cargs :: "string list"
  libs :: "string list"
  want_cross :: bool
  modversion :: string

definition PkgConfigDependency_get_methods :: "string list" where
  "PkgConfigDependency_get_methods = [''pkgconfig'']"

text \<open>
  \<^verbatim>\<open>ExternalProgram._search(name, None)\<close> where \<^verbatim>\<open>mesonlib.is_windows()\<close> is false:
  \<^verbatim>\<open>_search_dir\<close> returns \<^verbatim>\<open>False\<close> for the missing directory and the result is
  \<^verbatim>\<open>[shutil.which(name)]\<close>.
\<close>

definition ExternalProgram_search :: "host \<Rightarrow> string \<Rightarrow> command" where
  "ExternalProgram_search h nm = [which h nm]"

text \<open>\<^verbatim>\<open>check_pkgconfig\<close>.\<close>

definition check_pkgconfig :: "host \<Rightarrow> pkgbin" where
  "check_pkgconfig h =
     (let pkgbin0 = (case environ_PKG_CONFIG h of Some v \<Rightarrow> strip v | None \<Rightarrow> ''pkg-config'');
          pkgbin1 = (case Popen_safe h [pkgbin0, ''--version''] of
                       None \<Rightarrow> PkgFalse
                     | Some (returncode, out) \<Rightarrow>
                         (if returncode \<noteq> 0 then PkgFalse else PkgBin pkgbin0))
      in case pkgbin1 of
           PkgBin b \<Rightarrow>
             (if b \<noteq> [] \<and> \<not> isabs b
              then (case which h b of
                      Some w \<Rightarrow> (if w \<noteq> [] then PkgBin w else pkgbin1)
                    | None \<Rightarrow> pkgbin1)
              else pkgbin1)
         | _ \<Rightarrow> pkgbin1)"

text \<open>\<^verbatim>\<open>_call_pkgbin\<close>, for a binary \<open>b\<close>.\<close>

definition call_pkgbin :: "host \<Rightarrow> string \<Rightarrow> string list \<Rightarrow> exc + (int \<times> string)" where
  "call_pkgbin h b args =
     (case Popen_safe h (b # args) of
        None \<Rightarrow> Inl (Exc OSError [Lit ''cannot run '', Str (PStr b)])
      | Some (returncode, out) \<Rightarrow> Inr (returncode, strip out))"

text \<open>
  \<^verbatim>\<open>extract_field\<close>: the first line whose text before the first \<^verbatim>\<open>=\<close> is the field
  name decides; its second component loses its first and its last character.
\<close>

fun extract_field_lines :: "string list \<Rightarrow> string \<Rightarrow> exc + string option" where
  "extract_field_lines [] fieldname = Inr None"
| "extract_field_lines (line # rest) fieldname =
     (let arr = split_on (CHR ''='') (strip line)
      in if hd arr = fieldname
         then (case tl arr of
                 [] \<Rightarrow> Inl (Exc IndexError [Lit ''list index out of range''])
               | v # vs \<Rightarrow> Inr (Some (slice_1_m1 v)))
         else extract_field_lines rest fieldname)"

definition extract_field :: "host \<Rightarrow> string \<Rightarrow> string \<Rightarrow> exc + string option" where
  "extract_field h la_file fieldname =
     (case open_lines h la_file of
        None \<Rightarrow> Inl (Exc OSError [Lit ''cannot open '', Str (PStr la_file)])
      | Some ls \<Rightarrow> extract_field_lines ls fieldname)"

definition extract_dlname_field :: "host \<Rightarrow> string \<Rightarrow> exc + string option" where
  "extract_dlname_field h la_file = extract_field h la_file ''dlname''"

definition extract_libdir_field :: "host \<Rightarrow> string \<Rightarrow> exc + string option" where
  "extract_libdir_field h la_file = extract_field h la_file ''libdir''"

definition extract_libtool_shlib :: "host \<Rightarrow> string \<Rightarrow> exc + string option" where
  "extract_libtool_shlib h la_file =
     (case extract_dlname_field h la_file of
        Inl e \<Rightarrow> Inl e
      | Inr None \<Rightarrow> Inr None
      | Inr (Some dlname) \<Rightarrow>
          (if is_osx h
           then (let dlbasename = basename dlname
                 in case extract_libdir_field h la_file of
                      Inl e \<Rightarrow> Inl e
                    | Inr None \<Rightarrow> Inr (Some dlbasename)
                    | Inr (Some libdir) \<Rightarrow> Inr (Some (path_join libdir dlbasename)))
           else Inr (Some (basename dlname))))"

text \<open>
  The loop of \<^verbatim>\<open>_set_libs\<close> over the tokens of the output; the accumulator is
  \<^verbatim>\<open>self.libs\<close> and \<^verbatim>\<open>self.is_libtool\<close>. \<^verbatim>\<open>os.path.join\<close> raises
  \<^verbatim>\<open>TypeError\<close> when the library name is \<^verbatim>\<open>None\<close>.
\<close>

definition libtool_error :: "string \<Rightarrow> exc" where
  "libtool_error lib =
     Exc DependencyException
       [Lit ''Got a libtools specific '', Lit [CHR 0x22], Str (PStr lib), Lit [CHR 0x22],
        Lit '' dependenciesbut we could not compute the actual sharedlibrary path'']"

fun set_libs_loop :: "host \<Rightarrow> string list \<Rightarrow> string list \<times> bool \<Rightarrow> exc + (string list \<times> bool)" where
  "set_libs_loop h [] acc = Inr acc"
| "set_libs_loop h (lib # rest) acc =
     (if endswith lib ''.la''
      then (case extract_libtool_shlib h lib of
              Inl e \<Rightarrow> Inl e
            | Inr None \<Rightarrow> Inl (Exc TypeError [Lit ''expected str, bytes or os.PathLike object, not NoneType''])
            | Inr (Some shared_libname) \<Rightarrow>
                (let shared_lib = path_join (dirname lib) shared_libname;
                     shared_lib = (if \<not> path_exists h shared_lib
                                   then path_join3 (dirname lib) ''.libs'' shared_libname
                                   else shared_lib)
                 in if \<not> path_exists h shared_lib then Inl (libtool_error lib)
                    else set_libs_loop h rest (fst acc @ [shared_lib], True)))
      else set_libs_loop h rest (fst acc @ [lib], snd acc))"

definition cargs_error :: "string \<Rightarrow> string \<Rightarrow> exc" where
  "cargs_error nm out =
     Exc DependencyException
       [Lit ''Could not generate cargs for '', Str (PStr nm), Lit '':'',
        Lit [CHR 0x0A, CHR 0x0A], Str (PStr out)]"

definition libs_error :: "string \<Rightarrow> string \<Rightarrow> exc" where
  "libs_error nm out =
     Exc DependencyException
       [Lit ''Could not generate libs for '', Str (PStr nm), Lit '':'',
        Lit [CHR 0x0A, CHR 0x0A], Str (PStr out)]"

text \<open>\<^verbatim>\<open>_set_cargs\<close> and \<^verbatim>\<open>_set_libs\<close>, for the binary \<open>b\<close> stored in the object.\<close>

definition set_cargs :: "host \<Rightarrow> string \<Rightarrow> pkgconfig_dep \<Rightarrow> exc + pkgconfig_dep" where
  "set_cargs h b self =
     (case call_pkgbin h b [''--cflags'', name self] of
        Inl e \<Rightarrow> Inl e
      | Inr (ret, out) \<Rightarrow>
          (if ret \<noteq> 0 then Inl (cargs_error (name self) out)
           else Inr (self\<lparr>cargs := split_ws out\<rparr>)))"

definition set_libs :: "host \<Rightarrow> string \<Rightarrow> pkgconfig_dep \<Rightarrow> exc + pkgconfig_dep" where
  "set_libs h b self =
     (let libcmd = [name self, ''--libs''];
          libcmd = (if static self then libcmd @ [''--static''] else libcmd)
      in case call_pkgbin h b libcmd of
           Inl e \<Rightarrow> Inl e
         | Inr (ret, out) \<Rightarrow>
             (if ret \<noteq> 0 then Inl (libs_error (name self) out)
              else (case set_libs_loop h (split_ws out) ([], is_libtool self) of
                      Inl e \<Rightarrow> Inl e
                    | Inr (ls, lt) \<Rightarrow> Inr (self\<lparr>libs := ls, is_libtool := lt\<rparr>))))"

text \<open>
  \<^verbatim>\<open>PkgConfigDependency.__init__\<close> in three parts. The first is the choice of
  \<^verbatim>\<open>self.want_cross\<close>.
\<close>

definition want_cross_of :: "environment \<Rightarrow> kwargs \<Rightarrow> bool" where
  "want_cross_of env kw =
     (case kw ''native'' of
        Some v \<Rightarrow> (if is_cross_build env then \<not> truthy v else is_cross_build env)
      | None \<Rightarrow> is_cross_build env)"

text \<open>The second part finds the binary, in the cross file or through the class attribute.\<close>

definition find_pkgbin ::
  "host \<Rightarrow> environment \<Rightarrow> pkgconfig_dep \<Rightarrow> pstate \<Rightarrow> (exc + pkgconfig_dep) \<times> pstate" where
  "find_pkgbin h env self s =
     (if want_cross self then
        (case cross_binaries_pkgconfig env of
           None \<Rightarrow>
             (if truthy (required self)
              then (Inl (Exc DependencyException [Lit ''Pkg-config binary missing from cross file'']), s)
              else (Inr self, s))
         | Some pkgname \<Rightarrow>
             (let potential_pkgbin = ExternalProgram_search h pkgname
              in case found_command potential_pkgbin of
                   Inl e \<Rightarrow> (Inl e, s)
                 | Inr False \<Rightarrow> (Inr self, s)
                 | Inr True \<Rightarrow>
                     (case hd potential_pkgbin of
                        None \<Rightarrow> (Inr self, s)
                      | Some b \<Rightarrow>
                          (Inr (self\<lparr>pkgbin := PkgBin b\<rparr>),
                           s\<lparr>class_pkgbin := PkgBin b, cache_writes := Suc (cache_writes s)\<rparr>))))
      else if class_pkgbin s = PkgNone then
        (let b = check_pkgconfig h
         in (Inr (self\<lparr>pkgbin := b\<rparr>),
             s\<lparr>class_pkgbin := b, searches := Suc (searches s),
               cache_writes := Suc (cache_writes s)\<rparr>))
      else (Inr (self\<lparr>pkgbin := class_pkgbin s\<rparr>), s))"

text \<open>The third part queries the binary, from \<^verbatim>\<open>self.is_found = False\<close> on.\<close>

definition not_found_error :: "bool \<Rightarrow> string \<Rightarrow> exc" where
  "not_found_error cross nm =
     Exc DependencyException
       [Lit (if cross then ''Cross'' else ''Native''), Lit '' dependency '', Repr (PStr nm),
        Lit '' not found'']"

definition version_error :: "string \<Rightarrow> pyval list \<Rightarrow> string \<Rightarrow> exc" where
  "version_error nm not_found mv =
     Exc DependencyException
       [Lit ''Invalid version of dependency, need '', Repr (PStr nm), Lit '' '',
        Repr (PList not_found), Lit '' found '', Repr (PStr mv), Lit ''.'']"

definition set_cargs_and_libs :: "host \<Rightarrow> string \<Rightarrow> pkgconfig_dep \<Rightarrow> exc + pkgconfig_dep" where
  "set_cargs_and_libs h b self =
     (case set_cargs h b self of Inl e \<Rightarrow> Inl e | Inr self1 \<Rightarrow> set_libs h b self1)"

definition query_pkgbin :: "host \<Rightarrow> kwargs \<Rightarrow> pkgconfig_dep \<Rightarrow> exc + pkgconfig_dep" where
  "query_pkgbin h kw self0 =
     (let self = self0\<lparr>is_found := False\<rparr>
      in case pkgbin self of
           PkgBin b \<Rightarrow>
             (if b = [] then
                (if truthy (required self)
                 then Inl (Exc DependencyException [Lit ''Pkg-config not found.''])
                 else Inr self)
              else
                (case call_pkgbin h b [''--modversion'', name self] of
                   Inl e \<Rightarrow> Inl e
                 | Inr (ret, mv) \<Rightarrow>
                     (let self = self\<lparr>modversion := mv\<rparr>
                      in if ret \<noteq> 0 then
                           (if truthy (required self)
                            then Inl (not_found_error (want_cross self) (name self))
                            else Inr self)
                         else
                           (case kw_get kw ''version'' PNone of
                              PNone \<Rightarrow> set_cargs_and_libs h b (self\<lparr>is_found := True\<rparr>)
                            | PStr r \<Rightarrow>
                                (case version_compare_many h mv [PStr r] of
                                   (ok, not_found, found) \<Rightarrow>
                                     (if \<not> ok then
                                        (if truthy (required self)
                                         then Inl (version_error (name self) not_found mv)
                                         else Inr self)
                                      else set_cargs_and_libs h b (self\<lparr>is_found := True\<rparr>)))
                            | PList rs \<Rightarrow>
                                (case version_compare_many h mv rs of
                                   (ok, not_found, found) \<Rightarrow>
                                     (if \<not> ok then
                                        (if truthy (required self)
                                         then Inl (version_error (name self) not_found mv)
                                         else Inr self)
                                      else set_cargs_and_libs h b (self\<lparr>is_found := True\<rparr>)))
                            | _ \<Rightarrow>
                                Inl (Exc DependencyException
                                       [Lit ''Version argument must be string or list.''])))))
         | _ \<Rightarrow>
             (if truthy (required self)
              then Inl (Exc DependencyException [Lit ''Pkg-config not found.''])
              else Inr self))"

definition PkgConfigDependency_init ::
  "host \<Rightarrow> string \<Rightarrow> environment \<Rightarrow> kwargs \<Rightarrow> pstate \<Rightarrow> (exc + pkgconfig_dep) \<times> pstate" where
  "PkgConfigDependency_init h nm env kw s =
     (case Dependency_init PkgConfigDependency_get_methods ''pkgconfig'' kw of
        Inl e \<Rightarrow> (Inl e, s)
      | Inr base \<Rightarrow>
          (case kw_get kw ''static'' (PBool False) of
             PBool st \<Rightarrow>
               (let self = dependency_base.extend base
                      \<lparr>is_libtool = False, required = kw_get kw ''required'' (PBool True),
                       static = st, pkgbin = PkgNone, cargs = [], libs = [],
                       want_cross = want_cross_of env kw, modversion = ''none''\<rparr>;
                    self = self\<lparr>name := nm\<rparr>
                in case find_pkgbin h env self s of
                     (Inl e, s') \<Rightarrow> (Inl e, s')
                   | (Inr self, s') \<Rightarrow> (query_pkgbin h kw self, s'))
           | _ \<Rightarrow> (Inl (Exc DependencyException [Lit ''Static keyword must be boolean'']), s)))"

section \<open>\<^verbatim>\<open>ExtraFrameworkDependency\<close>\<close>

record framework_dep =
  fw_base :: dependency_base
  fw_name :: "string option"
  fw_path :: "string option"

text \<open>
  The inner loop of \<^verbatim>\<open>detect\<close> over the entries of one directory \<open>p\<close>; the result is
  the pair assigned to \<^verbatim>\<open>self.path\<close> and \<^verbatim>\<open>self.name\<close>, if the loop returns early.
\<close>

fun detect_entries :: "host \<Rightarrow> string \<Rightarrow> string \<Rightarrow> string list \<Rightarrow> exc + (string \<times> string) option" where
  "detect_entries h lname p [] = Inr None"
| "detect_entries h lname p (d # ds) =
     (let fullpath = path_join p d
      in if lname \<noteq> lower (hd (split_on (CHR ''.'') d)) then detect_entries h lname p ds
         else (case stat_is_dir h fullpath of
                 None \<Rightarrow> Inl (Exc OSError [Lit ''cannot stat '', Str (PStr fullpath)])
               | Some False \<Rightarrow> detect_entries h lname p ds
               | Some True \<Rightarrow> Inr (Some (p, d))))"

fun detect_paths :: "host \<Rightarrow> string \<Rightarrow> string list \<Rightarrow> exc + (string \<times> string) option" where
  "detect_paths h lname [] = Inr None"
| "detect_paths h lname (p # ps) =
     (case listdir h p of
        None \<Rightarrow> Inl (Exc OSError [Lit ''cannot list '', Str (PStr p)])
      | Some ds \<Rightarrow>
          (case detect_entries h lname p ds of
             Inl e \<Rightarrow> Inl e
           | Inr (Some r) \<Rightarrow> Inr (Some r)
           | Inr None \<Rightarrow> detect_paths h lname ps))"

definition detect :: "host \<Rightarrow> string \<Rightarrow> string option \<Rightarrow> exc + (string \<times> string) option" where
  "detect h nm path =
     (let lname = lower nm;
          paths = (case path of None \<Rightarrow> [''/Library/Frameworks''] | Some p \<Rightarrow> [p])
      in detect_paths h lname paths)"

definition ExtraFrameworkDependency_init ::
  "host \<Rightarrow> string \<Rightarrow> string option \<Rightarrow> kwargs \<Rightarrow> exc + framework_dep" where
  "ExtraFrameworkDependency_init h nm path kw =
     (case Dependency_init Dependency_get_methods ''extraframeworks'' kw of
        Inl e \<Rightarrow> Inl e
      | Inr base \<Rightarrow>
          (case detect h nm path of
             Inl e \<Rightarrow> Inl e
           | Inr None \<Rightarrow> Inr \<lparr>fw_base = base, fw_name = None, fw_path = None\<rparr>
           | Inr (Some (p, d)) \<Rightarrow> Inr \<lparr>fw_base = base, fw_name = Some d, fw_path = Some p\<rparr>))"

definition ExtraFramework_found :: "framework_dep \<Rightarrow> bool" where
  "ExtraFramework_found fw = (fw_name fw \<noteq> None)"



section \<open>The dispatcher \<^verbatim>\<open>find_external_dependency\<close>\<close>

text \<open>
  The objects the dispatcher can return. \<open>OtherDep k b\<close> is an object of the registered
  class for the name \<open>k\<close> whose \<^verbatim>\<open>found()\<close> returns \<open>b\<close>.
\<close>

datatype dependency =
    PkgConfigDep pkgconfig_dep
  | ValgrindDep pkgconfig_dep
  | FrameworkDep framework_dep
  | ThreadDep dependency_base
  | OtherDep string bool

fun found :: "dependency \<Rightarrow> bool" where
  "found (PkgConfigDep d) = is_found d"
| "found (ValgrindDep d) = is_found d"
| "found (FrameworkDep fw) = ExtraFramework_found fw"
| "found (ThreadDep d) = is_found d"
| "found (OtherDep k b) = b"

text \<open>The keys of the table \<^verbatim>\<open>packages\<close>.\<close>

definition packages :: "string list" where
  "packages = [''boost'', ''gtest'', ''gmock'', ''qt5'', ''qt4'', ''gnustep'', ''appleframeworks'',
               ''wxwidgets'', ''sdl2'', ''gl'', ''threads'', ''python3'', ''valgrind'']"

text \<open>\<^verbatim>\<open>packages[lname](environment, kwargs)\<close>.\<close>

definition construct_package ::
  "host \<Rightarrow> string \<Rightarrow> environment \<Rightarrow> kwargs \<Rightarrow> pstate \<Rightarrow> (exc + dependency) \<times> pstate" where
  "construct_package h lname env kw s =
     (if lname = ''threads'' then
        (case ThreadDependency_init kw of Inl e \<Rightarrow> (Inl e, s) | Inr d \<Rightarrow> (Inr (ThreadDep d), s))
      else if lname = ''valgrind'' then
        (case PkgConfigDependency_init h ''valgrind'' env kw s of
           (Inl e, s') \<Rightarrow> (Inl e, s')
         | (Inr d, s') \<Rightarrow> (Inr (ValgrindDep d), s'))
      else
        (case other_kinds h lname env kw s of
           (Inl e, s') \<Rightarrow> (Inl e, s')
         | (Inr b, s') \<Rightarrow> (Inr (OtherDep lname b), s')))"

definition framework_error :: "string \<Rightarrow> exc option \<Rightarrow> exc" where
  "framework_error nm pkg_exc =
     Exc DependencyException
       [Lit ''Dependency '', Repr (PStr nm),
        Lit '' not found, tried Extra Frameworks and Pkg-Config:'', Lit [CHR 0x0A, CHR 0x0A],
        StrExc pkg_exc]"

text \<open>
  The generic resolution after the pkg-config attempt, whose outcome is the object
  \<^verbatim>\<open>pkgdep\<close> (not found) or the captured exception \<^verbatim>\<open>pkg_exc\<close>.
\<close>

definition after_pkgconfig ::
  "host \<Rightarrow> string \<Rightarrow> bool \<Rightarrow> kwargs \<Rightarrow> exc + pkgconfig_dep \<Rightarrow> exc + dependency" where
  "after_pkgconfig h nm req kw outcome =
     (let pkg_exc = (case outcome of Inl e \<Rightarrow> Some e | Inr pkgdep \<Rightarrow> None)
      in if is_osx h then
           (case ExtraFrameworkDependency_init h nm None kw of
              Inl e \<Rightarrow> Inl e
            | Inr fwdep \<Rightarrow>
                (if req \<and> \<not> ExtraFramework_found fwdep then Inl (framework_error nm pkg_exc)
                 else Inr (FrameworkDep fwdep)))
         else (case outcome of
                 Inl e \<Rightarrow> Inl e
               | Inr pkgdep \<Rightarrow> Inr (PkgConfigDep pkgdep)))"

definition find_external_dependency ::
  "host \<Rightarrow> string \<Rightarrow> environment \<Rightarrow> kwargs \<Rightarrow> pstate \<Rightarrow> (exc + dependency) \<times> pstate" where
  "find_external_dependency h nm env kw s =
     (case kw_get kw ''required'' (PBool True) of
        PBool req \<Rightarrow>
          (let lname = lower nm
           in if lname \<in> set packages then
                (case construct_package h lname env kw s of
                   (Inl e, s') \<Rightarrow> (Inl e, s')
                 | (Inr dep, s') \<Rightarrow>
                     (if req \<and> \<not> found dep
                      then (Inl (Exc DependencyException
                                   [Lit ''Dependency '', Lit [CHR 0x22], Str (PStr nm), Lit [CHR 0x22],
                                    Lit '' not found'']), s')
                      else (Inr dep, s')))
              else
                (case PkgConfigDependency_init h nm env kw s of
                   (Inr pkgdep, s') \<Rightarrow>
                     (if is_found pkgdep then (Inr (PkgConfigDep pkgdep), s')
                      else (after_pkgconfig h nm req kw (Inr pkgdep), s'))
                 | (Inl e, s') \<Rightarrow> (after_pkgconfig h nm req kw (Inl e), s')))
      | _ \<Rightarrow> (Inl (Exc DependencyException
                     [Lit ''Keyword '', Lit [CHR 0x22], Lit ''required'', Lit [CHR 0x22],
                      Lit '' must be a boolean.'']), s))"



section \<open>Predicates of the statements and example worlds\<close>



text \<open>
  A host on which \<^verbatim>\<open>pkg-config foo --libs\<close> prints \<^verbatim>\<open>/usr/lib/libfoo.la\<close>; the
  parameters are the second line of that file and the paths that exist.
\<close>

definition la_host :: "string \<Rightarrow> (string \<Rightarrow> bool) \<Rightarrow> host" where
  "la_host dlname_line ex = \<lparr>is_osx = False, environ_PKG_CONFIG = None,
     Popen_safe = (\<lambda>c. if c = [''pkg-config'', ''foo'', ''--libs'']
                          then Some (0, ''/usr/lib/libfoo.la'' @ [CHR 0x0A]) else None),
     which = (\<lambda>n. None), path_exists = ex,
     open_lines = (\<lambda>p. if p = ''/usr/lib/libfoo.la''
                          then Some [''# libfoo.la - a libtool library file'' @ [CHR 0x0A], dlname_line]
                          else None),
     listdir = (\<lambda>p. None), stat_is_dir = (\<lambda>p. None),
     version_compare_many = (\<lambda>v rs. (True, [], rs)),
     other_kinds = (\<lambda>k env kw s. (Inr False, s))\<rparr>"

definition foo_self :: pkgconfig_dep where
  "foo_self = \<lparr>name = ''foo'', is_found = True, type_name = ''pkgconfig'', methods = [''pkgconfig''],
     is_libtool = False, required = PBool True, static = False, pkgbin = PkgBin ''pkg-config'',
     cargs = [], libs = [], want_cross = False, modversion = ''1.0''\<rparr>"

definition quoted_la_host :: host where
  "quoted_la_host =
     la_host (''dlname='' @ [CHR 0x27] @ ''libfoo.so.1'' @ [CHR 0x27, CHR 0x0A])
       (\<lambda>p. p = ''/usr/lib/.libs/libfoo.so.1'')"

definition unquoted_la_host :: host where
  "unquoted_la_host =
     la_host (''dlname=libfoo.so.1'' @ [CHR 0x0A]) (\<lambda>p. p = ''/usr/lib/libfoo.so.1'')"

text \<open>
  The binary \<open>b\<close> that a construction will use: the one the cross file names, when the
  request is for the cross build, else the one the search finds when the class attribute
  is still \<^verbatim>\<open>None\<close>, else the one stored there.
\<close>

definition uses_pkgbin :: "host \<Rightarrow> environment \<Rightarrow> kwargs \<Rightarrow> pstate \<Rightarrow> string \<Rightarrow> bool" where
  "uses_pkgbin h env kw s b =
     (if want_cross_of env kw
      then (case cross_binaries_pkgconfig env of None \<Rightarrow> False | Some pk \<Rightarrow> which h pk = Some b)
      else if class_pkgbin s = PkgNone then check_pkgconfig h = PkgBin b
      else class_pkgbin s = PkgBin b)"

text \<open>
  A well-formed request for a class with the declared methods \<open>ms\<close>: the method is
  absent, \<^verbatim>\<open>auto\<close> or declared, and \<^verbatim>\<open>static\<close> is absent or a boolean.
\<close>

definition method_allowed :: "string list \<Rightarrow> kwargs \<Rightarrow> bool" where
  "method_allowed ms kw =
     (case kw ''method'' of
        None \<Rightarrow> True
      | Some (PStr m) \<Rightarrow> m = ''auto'' \<or> m \<in> set ms
      | Some v \<Rightarrow> False)"

definition static_is_bool :: "kwargs \<Rightarrow> bool" where
  "static_is_bool kw = (case kw ''static'' of None \<Rightarrow> True | Some (PBool b) \<Rightarrow> True | Some v \<Rightarrow> False)"

text \<open>The version constraints of the request, if any, hold for the version \<open>mv\<close>.\<close>

definition version_satisfied :: "host \<Rightarrow> kwargs \<Rightarrow> string \<Rightarrow> bool" where
  "version_satisfied h kw mv =
     (case kw ''version'' of
        None \<Rightarrow> True
      | Some PNone \<Rightarrow> True
      | Some (PStr r) \<Rightarrow> fst (version_compare_many h mv [PStr r])
      | Some (PList rs) \<Rightarrow> fst (version_compare_many h mv rs)
      | Some v \<Rightarrow> False)"

text \<open>The arguments of the link-flags query, and the exit status of a query.\<close>

definition libs_command :: "string \<Rightarrow> kwargs \<Rightarrow> string list" where
  "libs_command nm kw =
     (if kw ''static'' = Some (PBool True) then [nm, ''--libs'', ''--static''] else [nm, ''--libs''])"

definition exits_nonzero :: "host \<Rightarrow> string list \<Rightarrow> bool" where
  "exits_nonzero h cmd = (case Popen_safe h cmd of None \<Rightarrow> False | Some (rc, out) \<Rightarrow> rc \<noteq> 0)"

definition exits_zero :: "host \<Rightarrow> string list \<Rightarrow> bool" where
  "exits_zero h cmd = (case Popen_safe h cmd of None \<Rightarrow> False | Some (rc, out) \<Rightarrow> rc = 0)"

text \<open>
  A native build, the state of a fresh process, and a host whose pkg-config knows the
  package \<^verbatim>\<open>foo\<close> in version 2.4.3 but fails every other query, the compile flags
  and link flags of \<^verbatim>\<open>foo\<close> included; \<^verbatim>\<open>/Library/Frameworks\<close> holds
  \<^verbatim>\<open>SDL2.framework\<close>.
\<close>

definition native_env :: environment where
  "native_env = \<lparr>is_cross_build = False, cross_binaries_pkgconfig = None\<rparr>"

definition initial_state :: pstate where
  "initial_state = \<lparr>class_pkgbin = PkgNone, searches = 0, cache_writes = 0\<rparr>"

definition probe_host :: "bool \<Rightarrow> host" where
  "probe_host osx = \<lparr>is_osx = osx, environ_PKG_CONFIG = None,
     Popen_safe = (\<lambda>c. if c = [''pkg-config'', ''--version''] then Some (0, ''0.29.2'' @ [CHR 0x0A])
                        else if c = [''/usr/bin/pkg-config'', ''--modversion'', ''foo'']
                        then Some (0, ''2.4.3'' @ [CHR 0x0A])
                        else Some (1, [])),
     which = (\<lambda>n. if n = ''pkg-config'' then Some ''/usr/bin/pkg-config'' else None),
     path_exists = (\<lambda>p. False),
     open_lines = (\<lambda>p. None),
     listdir = (\<lambda>p. if p = ''/Library/Frameworks'' then Some [''SDL2.framework''] else None),
     stat_is_dir = (\<lambda>p. Some True),
     version_compare_many = (\<lambda>v rs. (True, [], rs)),
     other_kinds = (\<lambda>k env kw s. (Inr False, s))\<rparr>"

definition linux_host :: host where
  "linux_host = probe_host False"


definition optional :: kwargs where
  "optional = [''required'' \<mapsto> PBool False]"







section \<open>Properties\<close>

subsection \<open>The identity key\<close>

lemma get_dep_identifier_shape:
  assumes "get_dep_identifier nm (kw(''modules'' \<mapsto> PList xs)) = Inr k"
  shows "\<exists>t. k = PStr nm # xs @ t"
  using assms
  by (auto simp: get_dep_identifier_def kw_get_def py_iter_def Let_def
           split: option.splits sum.splits)

text \<open>
  Claim C9. The identity key depends on the keyword dictionary only through the entries
  \<^verbatim>\<open>modules\<close>, \<^verbatim>\<open>main\<close>, \<^verbatim>\<open>static\<close> and \<^verbatim>\<open>fallback\<close>; a module given as
  the single string \<open>s\<close> gives the key of the one-element list \<open>[s]\<close>; and two
  requests whose module lists hold the same elements in a different order get
  different keys.
\<close>

theorem get_dep_identifier_key:
  "(kw1 ''modules'' = kw2 ''modules'' \<and> kw1 ''main'' = kw2 ''main'' \<and>
    kw1 ''static'' = kw2 ''static'' \<and> kw1 ''fallback'' = kw2 ''fallback''
      \<longrightarrow> get_dep_identifier nm kw1 = get_dep_identifier nm kw2)
   \<and> get_dep_identifier nm (kw(''modules'' \<mapsto> PStr s))
       = get_dep_identifier nm (kw(''modules'' \<mapsto> PList [PStr s]))
   \<and> (mset xs = mset ys \<and> xs \<noteq> ys
       \<and> get_dep_identifier nm (kw(''modules'' \<mapsto> PList xs)) = Inr k1
       \<and> get_dep_identifier nm' (kw'(''modules'' \<mapsto> PList ys)) = Inr k2
      \<longrightarrow> k1 \<noteq> k2)"
proof (intro conjI impI)
  assume "kw1 ''modules'' = kw2 ''modules'' \<and> kw1 ''main'' = kw2 ''main'' \<and>
    kw1 ''static'' = kw2 ''static'' \<and> kw1 ''fallback'' = kw2 ''fallback''"
  then have h: "kw1 ''modules'' = kw2 ''modules''" "kw1 ''main'' = kw2 ''main''"
    "kw1 ''static'' = kw2 ''static''" "kw1 ''fallback'' = kw2 ''fallback''"
    by simp_all
  show "get_dep_identifier nm kw1 = get_dep_identifier nm kw2"
    unfolding get_dep_identifier_def kw_get_def by (simp only: h)
next
  show "get_dep_identifier nm (kw(''modules'' \<mapsto> PStr s))
       = get_dep_identifier nm (kw(''modules'' \<mapsto> PList [PStr s]))"
    by (simp add: get_dep_identifier_def kw_get_def Let_def py_iter_def)
next
  assume a: "mset xs = mset ys \<and> xs \<noteq> ys
       \<and> get_dep_identifier nm (kw(''modules'' \<mapsto> PList xs)) = Inr k1
       \<and> get_dep_identifier nm' (kw'(''modules'' \<mapsto> PList ys)) = Inr k2"
  from a obtain t1 where k1: "k1 = PStr nm # xs @ t1"
    using get_dep_identifier_shape by blast
  from a obtain t2 where k2: "k2 = PStr nm' # ys @ t2"
    using get_dep_identifier_shape by blast
  from a have len: "length xs = length ys"
    by (metis size_mset)
  show "k1 \<noteq> k2"
  proof
    assume "k1 = k2"
    with k1 k2 have "xs @ t1 = ys @ t2" by simp
    with len have "xs = ys" by simp
    with a show False by simp
  qed
qed

theorem get_dep_identifier_key_witness:
  "get_dep_identifier ''boost'' [''modules'' \<mapsto> PStr ''thread'', ''required'' \<mapsto> PBool False]
     = get_dep_identifier ''boost'' [''modules'' \<mapsto> PStr ''thread'']
   \<and> get_dep_identifier ''boost'' [''modules'' \<mapsto> PList [PStr ''a'', PStr ''b'']]
     = Inr [PStr ''boost'', PStr ''a'', PStr ''b'', PStr ''main'', PBool False, PStr ''static'', PBool False]
   \<and> get_dep_identifier ''boost'' [''modules'' \<mapsto> PList [PStr ''a'', PStr ''b'']]
      \<noteq> get_dep_identifier ''boost'' [''modules'' \<mapsto> PList [PStr ''b'', PStr ''a'']]"
proof -
  let ?k1 = "[PStr ''boost'', PStr ''a'', PStr ''b'', PStr ''main'', PBool False, PStr ''static'', PBool False]"
  let ?k2 = "[PStr ''boost'', PStr ''b'', PStr ''a'', PStr ''main'', PBool False, PStr ''static'', PBool False]"
  have e1: "get_dep_identifier ''boost'' (Map.empty(''modules'' \<mapsto> PList [PStr ''a'', PStr ''b''])) = Inr ?k1"
    by (simp add: get_dep_identifier_def kw_get_def py_iter_def)
  have e2: "get_dep_identifier ''boost'' (Map.empty(''modules'' \<mapsto> PList [PStr ''b'', PStr ''a''])) = Inr ?k2"
    by (simp add: get_dep_identifier_def kw_get_def py_iter_def)
  have m: "mset [PStr ''a'', PStr ''b''] = mset [PStr ''b'', PStr ''a'']" by simp
  have n: "[PStr ''a'', PStr ''b''] \<noteq> [PStr ''b'', PStr ''a'']" by simp
  have d: "[''modules'' \<mapsto> PStr ''thread'', ''required'' \<mapsto> PBool False] ''modules'' = [''modules'' \<mapsto> PStr ''thread''] ''modules''
    \<and> [''modules'' \<mapsto> PStr ''thread'', ''required'' \<mapsto> PBool False] ''main'' = [''modules'' \<mapsto> PStr ''thread''] ''main''
    \<and> [''modules'' \<mapsto> PStr ''thread'', ''required'' \<mapsto> PBool False] ''static'' = [''modules'' \<mapsto> PStr ''thread''] ''static''
    \<and> [''modules'' \<mapsto> PStr ''thread'', ''required'' \<mapsto> PBool False] ''fallback'' = [''modules'' \<mapsto> PStr ''thread''] ''fallback''"
    by simp
  from get_dep_identifier_key [of "[''modules'' \<mapsto> PStr ''thread'', ''required'' \<mapsto> PBool False]"
      "[''modules'' \<mapsto> PStr ''thread'']" "''boost''" Map.empty "''thread''"
      "[PStr ''a'', PStr ''b'']" "[PStr ''b'', PStr ''a'']" ?k1 "''boost''" Map.empty ?k2]
    d m n e1 e2
  show ?thesis by simp
qed

subsection \<open>The command list of an external program\<close>

text \<open>
  Claim C10. \<^verbatim>\<open>get_command\<close> returns a new list with the contents of the stored
  command: whatever is written afterwards into the returned list, the stored command
  and the results of \<^verbatim>\<open>found()\<close> and \<^verbatim>\<open>get_path()\<close> stay as they were.
\<close>

theorem get_command_returns_copy:
  assumes "ep_command p < length st"
    and "ExternalProgram_get_command st p = (r, st')"
  shows "st' ! r = st ! ep_command p \<and> r \<noteq> ep_command p \<and>
         (\<forall>xs. (st'[r := xs]) ! ep_command p = st ! ep_command p
            \<and> ExternalProgram_found (st'[r := xs]) p = ExternalProgram_found st p
            \<and> ExternalProgram_get_path (st'[r := xs]) p = ExternalProgram_get_path st p)"
proof -
  from assms(2) have r: "r = length st" and st': "st' = st @ [st ! ep_command p]"
    by (simp_all add: ExternalProgram_get_command_def)
  from assms(1) r have ne: "r \<noteq> ep_command p" by simp
  have copy: "st' ! r = st ! ep_command p" by (simp add: r st')
  have frame: "(st'[r := xs]) ! ep_command p = st ! ep_command p" for xs
    using assms(1) by (simp add: r st' nth_append)
  show ?thesis
    using ne copy frame
    by (simp add: ExternalProgram_found_def ExternalProgram_get_path_def)
qed

theorem get_command_returns_copy_witness:
  "ExternalProgram_get_command [[Some ''/usr/bin/pkg-config'']] \<lparr>ep_name = ''pkg-config'', ep_command = 0\<rparr>
     = (1, [[Some ''/usr/bin/pkg-config''], [Some ''/usr/bin/pkg-config'']])
   \<and> ExternalProgram_found ([[Some ''/usr/bin/pkg-config''], [Some ''/usr/bin/pkg-config'']][1 := [None]])
        \<lparr>ep_name = ''pkg-config'', ep_command = 0\<rparr> = Inr True
   \<and> ExternalProgram_get_path ([[Some ''/usr/bin/pkg-config''], [Some ''/usr/bin/pkg-config'']][1 := [None]])
        \<lparr>ep_name = ''pkg-config'', ep_command = 0\<rparr> = Inr (Some ''/usr/bin/pkg-config'')"
proof -
  let ?p = "\<lparr>ep_name = ''pkg-config'', ep_command = 0\<rparr>"
  let ?st = "[[Some ''/usr/bin/pkg-config'']]"
  let ?st' = "[[Some ''/usr/bin/pkg-config''], [Some ''/usr/bin/pkg-config'']]"
  have a: "ep_command ?p < length ?st" by simp
  have b: "ExternalProgram_get_command ?st ?p = (1, ?st')"
    by (simp add: ExternalProgram_get_command_def)
  have f: "ExternalProgram_found ?st ?p = Inr True"
    by (simp add: ExternalProgram_found_def found_command_def)
  have g: "ExternalProgram_get_path ?st ?p = Inr (Some ''/usr/bin/pkg-config'')"
    by (simp add: ExternalProgram_get_path_def path_of_command_def found_command_def)
  from get_command_returns_copy [OF a b] have
    "ExternalProgram_found (?st'[1 := [None]]) ?p = ExternalProgram_found ?st ?p
     \<and> ExternalProgram_get_path (?st'[1 := [None]]) ?p = ExternalProgram_get_path ?st ?p"
    by blast
  with b f g show ?thesis by simp
qed

subsection \<open>The detection method\<close>

text \<open>
  \<^verbatim>\<open>Dependency.__init__\<close> itself enables every declared method for \<^verbatim>\<open>auto\<close> (or no
  method keyword), exactly the named method when it is declared, and raises
  \<^verbatim>\<open>MesonException\<close> for any other value.
\<close>

lemma Dependency_init_methods:
  "(kw ''method'' = None \<or> kw ''method'' = Some (PStr ''auto'')
      \<longrightarrow> (\<exists>d. Dependency_init ms t kw = Inr d \<and> methods d = ms))
   \<and> (m \<in> set ms \<and> m \<noteq> ''auto'' \<and> kw ''method'' = Some (PStr m)
      \<longrightarrow> (\<exists>d. Dependency_init ms t kw = Inr d \<and> methods d = [m]))
   \<and> (kw ''method'' = Some v \<and> v \<noteq> PStr ''auto'' \<and> v \<notin> PStr ` set ms
      \<longrightarrow> (\<exists>e. Dependency_init ms t kw = Inl e \<and> exc_class_of e = MesonException))"
  by (auto simp: Dependency_init_def unsupported_method_def Let_def split: pyval.splits)

text \<open>
  Claim C8. Every variant is to reject a method outside its declared set with a
  \<^verbatim>\<open>MesonException\<close> and to enable its declared methods for \<^verbatim>\<open>auto\<close>.
  \<^verbatim>\<open>ThreadDependency\<close> does neither: its constructor never hands the keyword
  dictionary to \<^verbatim>\<open>Dependency.__init__\<close>, so a request for \<^verbatim>\<open>threads\<close> ends in a
  \<^verbatim>\<open>TypeError\<close>, which is not a \<^verbatim>\<open>MesonException\<close>, whatever the method is.
\<close>

theorem ThreadDependency_method_unchecked:
  "find_external_dependency h ''threads'' env [''method'' \<mapsto> PStr ''bogus''] s = (Inl missing_kwargs, s)
   \<and> find_external_dependency h ''threads'' env [''method'' \<mapsto> PStr ''auto''] s = (Inl missing_kwargs, s)
   \<and> \<not> is_MesonException missing_kwargs"
  by (simp add: find_external_dependency_def kw_get_def lower_def lower_char_def packages_def
      construct_package_def ThreadDependency_init_def is_MesonException_def missing_kwargs_def)

subsection \<open>The framework scan\<close>




subsection \<open>Libtool archives among the link arguments\<close>

lemma split_on_notin: "c \<notin> set a \<Longrightarrow> split_on c a = [a]"
  by (induction a) auto

lemma split_on_once: "c \<notin> set a \<Longrightarrow> c \<notin> set b \<Longrightarrow> split_on c (a @ c # b) = [a, b]"
  by (induction a) (auto simp: split_on_notin)

lemma basename_plain: "CHR ''/'' \<notin> set so \<Longrightarrow> basename so = so"
proof -
  assume a: "CHR ''/'' \<notin> set so"
  then have tw: "takeWhile (\<lambda>c. c \<noteq> CHR ''/'') (rev so) = rev so"
    by (intro takeWhile_eq_all_conv[THEN iffD2]) auto
  show ?thesis unfolding basename_def rfind_slash_def tw by simp
qed

lemma extract_field_lines_skip:
  "\<forall>x\<in>set pre. hd (split_on (CHR ''='') (strip x)) \<noteq> f \<Longrightarrow>
   extract_field_lines (pre @ ls) f = extract_field_lines ls f"
  by (induction pre) (auto simp: Let_def)

lemma extract_dlname_quoted:
  assumes "open_lines h lib = Some (pre @ l # post)"
    and "\<forall>x\<in>set pre. hd (split_on (CHR ''='') (strip x)) \<noteq> ''dlname''"
    and "strip l = ''dlname='' @ q1 # so @ [q2]"
    and "CHR ''='' \<notin> set (q1 # so @ [q2])"
  shows "extract_dlname_field h lib = Inr (Some so)"
proof -
  have "CHR ''='' \<notin> set ''dlname''" by simp
  with assms(4) have "split_on (CHR ''='') (''dlname'' @ CHR ''='' # (q1 # so @ [q2])) = [''dlname'', q1 # so @ [q2]]"
    by (rule split_on_once[rotated])
  with assms(3) have sp: "split_on (CHR ''='') (strip l) = [''dlname'', q1 # so @ [q2]]" by simp
  have "extract_field_lines (l # post) ''dlname'' = Inr (Some so)"
    by (simp add: sp slice_1_m1_def)
  with assms(1,2) show ?thesis
    by (simp add: extract_dlname_field_def extract_field_def extract_field_lines_skip)
qed

text \<open>
  Claim C5, amended. On a host that is not OSX, take a link token ending in \<^verbatim>\<open>.la\<close>
  whose file has, as its first line for the key \<^verbatim>\<open>dlname\<close>, the value
  \<open>so\<close> enclosed in one delimiter character on each side (as in
  \<^verbatim>\<open>dlname='libfoo.so.1'\<close>), where \<open>so\<close> has no slash. Then \<^verbatim>\<open>_set_libs\<close> replaces
  the token by \<open>so\<close> in the token's directory if that path exists, else by \<open>so\<close>
  in the subdirectory \<^verbatim>\<open>.libs\<close> of the token's directory if that exists, and raises a
  \<^verbatim>\<open>DependencyException\<close> if neither exists.
\<close>

theorem libtool_token_resolution:
  assumes "endswith lib ''.la''" and "\<not> is_osx h"
    and "open_lines h lib = Some (pre @ l # post)"
    and "\<forall>x\<in>set pre. hd (split_on (CHR ''='') (strip x)) \<noteq> ''dlname''"
    and "strip l = ''dlname='' @ q1 # so @ [q2]"
    and "CHR ''='' \<notin> set (q1 # so @ [q2])"
    and "CHR ''/'' \<notin> set so"
  shows "set_libs_loop h (lib # rest) acc =
           (if path_exists h (path_join (dirname lib) so)
            then set_libs_loop h rest (fst acc @ [path_join (dirname lib) so], True)
            else if path_exists h (path_join3 (dirname lib) ''.libs'' so)
            then set_libs_loop h rest (fst acc @ [path_join3 (dirname lib) ''.libs'' so], True)
            else Inl (libtool_error lib))"
proof -
  have "extract_dlname_field h lib = Inr (Some so)"
    using assms(3,4,5,6) by (rule extract_dlname_quoted)
  with assms(2,7) have "extract_libtool_shlib h lib = Inr (Some so)"
    by (simp add: extract_libtool_shlib_def basename_plain)
  with assms(1) show ?thesis by (simp add: Let_def)
qed

lemma strip_quoted_line:
  "strip (''dlname='' @ [CHR 0x27] @ ''libfoo.so.1'' @ [CHR 0x27, CHR 0x0A])
     = ''dlname='' @ CHR 0x27 # ''libfoo.so.1'' @ [CHR 0x27]"
  by (simp add: strip_def is_space_def)

lemma strip_comment_line:
  "hd (split_on (CHR ''='') (strip (''# libfoo.la - a libtool library file'' @ [CHR 0x0A]))) \<noteq> ''dlname''"
  by (simp add: strip_def is_space_def)

lemma dirname_la: "dirname ''/usr/lib/libfoo.la'' = ''/usr/lib''"
  by (simp add: dirname_def rfind_slash_def rstrip_slash_def Let_def)

theorem libtool_token_resolution_witness:
  "set_libs_loop quoted_la_host [''/usr/lib/libfoo.la''] ([], False)
   = Inr ([''/usr/lib/.libs/libfoo.so.1''], True)"
proof -
  let ?h = quoted_la_host
  have a: "endswith ''/usr/lib/libfoo.la'' ''.la''" by (simp add: endswith_def)
  have b: "\<not> is_osx ?h" by (simp add: la_host_def quoted_la_host_def)
  have c: "open_lines ?h ''/usr/lib/libfoo.la''
     = Some ([''# libfoo.la - a libtool library file'' @ [CHR 0x0A]]
             @ (''dlname='' @ [CHR 0x27] @ ''libfoo.so.1'' @ [CHR 0x27, CHR 0x0A]) # [])"
    by (simp add: la_host_def quoted_la_host_def)
  have d: "\<forall>x\<in>set [''# libfoo.la - a libtool library file'' @ [CHR 0x0A]].
             hd (split_on (CHR ''='') (strip x)) \<noteq> ''dlname''"
    using strip_comment_line by simp
  have e: "CHR ''='' \<notin> set (CHR 0x27 # ''libfoo.so.1'' @ [CHR 0x27])" by simp
  have f: "CHR ''/'' \<notin> set ''libfoo.so.1''" by simp
  from libtool_token_resolution [OF a b c d strip_quoted_line e f, of "[]" "([], False)"]
  show ?thesis
    by (simp add: dirname_la path_join_def path_join3_def isabs_def la_host_def quoted_la_host_def)
qed

text \<open>
  As the claim is worded, with the value written bare: the file declares
  \<^verbatim>\<open>dlname=libfoo.so.1\<close> and no \<^verbatim>\<open>libdir\<close>, and \<^verbatim>\<open>/usr/lib/libfoo.so.1\<close>
  exists, yet the field is read as \<^verbatim>\<open>ibfoo.so.\<close> and \<^verbatim>\<open>_set_libs\<close> raises.
\<close>

theorem libtool_unquoted_dlname_counterexample:
  "path_exists unquoted_la_host ''/usr/lib/libfoo.so.1''
   \<and> extract_libdir_field unquoted_la_host ''/usr/lib/libfoo.la'' = Inr None
   \<and> extract_dlname_field unquoted_la_host ''/usr/lib/libfoo.la'' = Inr (Some ''ibfoo.so.'')
   \<and> set_libs unquoted_la_host ''pkg-config'' foo_self = Inl (libtool_error ''/usr/lib/libfoo.la'')"
  by (simp add: la_host_def unquoted_la_host_def foo_self_def set_libs_def call_pkgbin_def
      strip_def is_space_def endswith_def extract_libtool_shlib_def extract_dlname_field_def
      extract_libdir_field_def extract_field_def slice_1_m1_def basename_def rfind_slash_def
      dirname_def rstrip_slash_def path_join_def path_join3_def isabs_def Let_def)

subsection \<open>Broken metadata is fatal\<close>

lemma Dependency_init_allowed:
  "method_allowed ms kw \<Longrightarrow> \<exists>d. Dependency_init ms t kw = Inr d \<and> name d = ''null'' \<and> \<not> is_found d"
  by (auto simp: method_allowed_def Dependency_init_def Let_def split: option.splits pyval.splits)

lemma find_pkgbin_uses:
  assumes "uses_pkgbin h env kw s b" and "want_cross self = want_cross_of env kw"
  shows "\<exists>s'. find_pkgbin h env self s = (Inr (self\<lparr>pkgbin := PkgBin b\<rparr>), s')"
  using assms
  by (auto simp: uses_pkgbin_def find_pkgbin_def ExternalProgram_search_def found_command_def Let_def
           split: if_splits option.splits)

lemma set_cargs_and_libs_fail:
  assumes "exits_nonzero h [b, ''--cflags'', name self]
           \<or> (exits_zero h [b, ''--cflags'', name self]
               \<and> exits_nonzero h (b # (if static self then [name self, ''--libs'', ''--static'']
                                          else [name self, ''--libs''])))"
  shows "\<exists>e. set_cargs_and_libs h b self = Inl e \<and> is_DependencyException e"
  using assms
  by (cases "static self")
     (auto simp: set_cargs_and_libs_def set_cargs_def set_libs_def call_pkgbin_def exits_nonzero_def
        exits_zero_def cargs_error_def libs_error_def is_DependencyException_def Let_def
      split: option.splits)

lemma query_pkgbin_flags_fail:
  assumes "pkgbin self = PkgBin b" and "b \<noteq> []"
    and "Popen_safe h [b, ''--modversion'', name self] = Some (0, v)"
    and "version_satisfied h kw (strip v)"
    and "exits_nonzero h [b, ''--cflags'', name self]
           \<or> (exits_zero h [b, ''--cflags'', name self]
               \<and> exits_nonzero h (b # (if static self then [name self, ''--libs'', ''--static'']
                                          else [name self, ''--libs''])))"
  shows "\<exists>e. query_pkgbin h kw self = Inl e \<and> is_DependencyException e"
proof -
  let ?self = "self\<lparr>modversion := strip v, is_found := True\<rparr>"
  have f: "\<exists>e. set_cargs_and_libs h b ?self = Inl e \<and> is_DependencyException e"
    using assms(5) set_cargs_and_libs_fail [of h b ?self] by (cases "static self") simp_all
  have q: "query_pkgbin h kw self = set_cargs_and_libs h b ?self"
    using assms(1-4)
    by (auto simp: query_pkgbin_def call_pkgbin_def kw_get_def version_satisfied_def Let_def
        split: option.splits pyval.splits prod.splits)
  from f q show ?thesis by simp
qed

text \<open>
  Claim C4. For a well-formed request whose pkg-config binary \<open>b\<close> answers the
  module-version query with exit status 0 and whose version constraints, if any, are
  satisfied: when the compile-flags query exits with a nonzero status, or it exits with 0
  and the link-flags query exits with a nonzero status, the construction raises a
  \<^verbatim>\<open>DependencyException\<close>, whatever the value of \<^verbatim>\<open>required\<close>.
\<close>

theorem broken_flags_always_fatal:
  assumes "method_allowed PkgConfigDependency_get_methods kw" and "static_is_bool kw"
    and "uses_pkgbin h env kw s b" and "b \<noteq> []"
    and "Popen_safe h [b, ''--modversion'', nm] = Some (0, v)"
    and "version_satisfied h kw (strip v)"
    and "exits_nonzero h [b, ''--cflags'', nm]
         \<or> (exits_zero h [b, ''--cflags'', nm] \<and> exits_nonzero h (b # libs_command nm kw))"
  shows "\<exists>e s'. PkgConfigDependency_init h nm env kw s = (Inl e, s') \<and> is_DependencyException e"
proof -
  obtain base where base: "Dependency_init PkgConfigDependency_get_methods ''pkgconfig'' kw = Inr base"
    using Dependency_init_allowed [OF assms(1)] by blast
  obtain st where st: "kw_get kw ''static'' (PBool False) = PBool st"
    and st': "st = (kw ''static'' = Some (PBool True))"
    using assms(2) by (auto simp: static_is_bool_def kw_get_def split: option.splits pyval.splits)
  define self where "self = (dependency_base.extend base
                      \<lparr>is_libtool = False, required = kw_get kw ''required'' (PBool True),
                       static = st, pkgbin = PkgNone, cargs = [], libs = [],
                       want_cross = want_cross_of env kw, modversion = ''none''\<rparr>)\<lparr>name := nm\<rparr>"
  have wc: "want_cross self = want_cross_of env kw"
    by (simp add: self_def dependency_base.extend_def)
  obtain s' where fp: "find_pkgbin h env self s = (Inr (self\<lparr>pkgbin := PkgBin b\<rparr>), s')"
    using find_pkgbin_uses [OF assms(3) wc] by blast
  let ?self = "self\<lparr>pkgbin := PkgBin b\<rparr>"
  have nm: "name ?self = nm" and sst: "static ?self = st" and pb: "pkgbin ?self = PkgBin b"
    by (simp_all add: self_def dependency_base.extend_def)
  have fl: "exits_nonzero h [b, ''--cflags'', name ?self]
           \<or> (exits_zero h [b, ''--cflags'', name ?self]
               \<and> exits_nonzero h (b # (if static ?self then [name ?self, ''--libs'', ''--static'']
                                          else [name ?self, ''--libs''])))"
    using assms(7) unfolding nm sst st' libs_command_def by presburger
  have mv: "Popen_safe h [b, ''--modversion'', name ?self] = Some (0, v)"
    using assms(5) unfolding nm .
  obtain e where e: "query_pkgbin h kw ?self = Inl e" "is_DependencyException e"
    using query_pkgbin_flags_fail [OF pb assms(4) mv assms(6) fl] by blast
  have "PkgConfigDependency_init h nm env kw s = (query_pkgbin h kw ?self, s')"
    using base st fp by (simp add: PkgConfigDependency_init_def self_def)
  with e show ?thesis by simp
qed

lemma check_pkgconfig_linux: "check_pkgconfig linux_host = PkgBin ''/usr/bin/pkg-config''"
  by (simp add: check_pkgconfig_def linux_host_def probe_host_def isabs_def)

theorem broken_flags_always_fatal_witness:
  "\<exists>e s'. PkgConfigDependency_init linux_host ''foo'' native_env optional initial_state = (Inl e, s')
     \<and> is_DependencyException e"
proof -
  have a: "method_allowed PkgConfigDependency_get_methods optional"
    by (simp add: method_allowed_def optional_def)
  have b: "static_is_bool optional" by (simp add: static_is_bool_def optional_def)
  have c: "uses_pkgbin linux_host native_env optional initial_state ''/usr/bin/pkg-config''"
    by (simp add: uses_pkgbin_def want_cross_of_def native_env_def optional_def initial_state_def
        check_pkgconfig_linux)
  have d: "''/usr/bin/pkg-config'' \<noteq> []" by simp
  have e: "Popen_safe linux_host [''/usr/bin/pkg-config'', ''--modversion'', ''foo'']
             = Some (0, ''2.4.3'' @ [CHR 0x0A])"
    by (simp add: linux_host_def probe_host_def)
  have f: "version_satisfied linux_host optional (strip (''2.4.3'' @ [CHR 0x0A]))"
    by (simp add: version_satisfied_def optional_def)
  have g: "exits_nonzero linux_host [''/usr/bin/pkg-config'', ''--cflags'', ''foo'']
         \<or> (exits_zero linux_host [''/usr/bin/pkg-config'', ''--cflags'', ''foo'']
              \<and> exits_nonzero linux_host (''/usr/bin/pkg-config'' # libs_command ''foo'' optional))"
    by (simp add: exits_nonzero_def linux_host_def probe_host_def)
  from broken_flags_always_fatal [OF a b c d e f g] show ?thesis .
qed

subsection \<open>The search for the binary is done once\<close>












subsection \<open>Dependencies that no probe finds\<close>











subsection \<open>The captured exception\<close>





end
